theory Spec2Isabelle
  imports Complex_Main "HOL-Library.Char_ord" "HOL-Library.List_Lexorder" "HOL-Library.AList"
begin


section \<open>Errors and durations\<close>

text \<open>
  The exceptions the modelled functions can leave with. A \<open>ValueError\<close> carries its
  message, since \<open>parse_range\<close> promises the offending input inside it.
\<close>

datatype error = ValueError string | TypeError | OverflowError | OSError

text \<open>
  Python's \<open>timedelta\<close> is an exact count of microseconds, normalised into days, seconds
  and microseconds, with the day count limited to nine digits. The model keeps the total
  number of microseconds; building a value outside the limits raises \<open>OverflowError\<close>.
\<close>

datatype timedelta = Timedelta (total_us: int)

definition us_per_second :: int where "us_per_second = 1000000"
definition us_per_hour :: int where "us_per_hour = 3600 * 1000000"
definition us_per_day :: int where "us_per_day = 86400 * 1000000"

definition timedelta_min_us :: int where
  "timedelta_min_us = - 999999999 * us_per_day"

definition timedelta_max_us :: int where
  "timedelta_max_us = 999999999 * us_per_day + (us_per_day - 1)"

definition mk_timedelta :: "int \<Rightarrow> error + timedelta" where
  "mk_timedelta us =
     (if timedelta_min_us \<le> us \<and> us \<le> timedelta_max_us
      then Inr (Timedelta us) else Inl OverflowError)"


definition timedelta_days :: "int \<Rightarrow> error + timedelta" where
  "timedelta_days n = mk_timedelta (n * us_per_day)"


text \<open>
  \<open>total_seconds()\<close> is a float in Python. The model computes it, and every quotient
  built from it, in exact rational arithmetic.
\<close>

definition total_seconds :: "timedelta \<Rightarrow> rat" where
  "total_seconds d = of_int (total_us d) / 1000000"

text \<open>Sequencing of a step that may raise with its continuation.\<close>

definition bind_err :: "error + 'a \<Rightarrow> ('a \<Rightarrow> error + 'b) \<Rightarrow> error + 'b" where
  "bind_err r f = (case r of Inl e \<Rightarrow> Inl e | Inr x \<Rightarrow> f x)"

text \<open>
  Several functions accept either an int, read as a number of days, or a timedelta.
  \<open>as_timedelta\<close> is the conversion each of them starts with:
  \<^verbatim>\<open>if isinstance(duration, int): duration = timedelta(days=duration)\<close>.
\<close>

datatype duration_arg = IntDays int | Delta timedelta

definition as_timedelta :: "duration_arg \<Rightarrow> error + timedelta" where
  "as_timedelta a = (case a of IntDays n \<Rightarrow> timedelta_days n | Delta d \<Rightarrow> Inr d)"

section \<open>cache.py: the adaptive time to live\<close>

definition DEFAULT_TTL_HOURS :: rat where "DEFAULT_TTL_HOURS = 24"

definition ttl_of_hours :: "rat \<Rightarrow> rat" where
  "ttl_of_hours total_hours =
     (if total_hours \<le> 2 then 1 / 2
      else if total_hours \<le> 6 then 1
      else if total_hours \<le> 24 then 2
      else if total_hours \<le> 72 then 6
      else if total_hours \<le> 168 then 12
      else DEFAULT_TTL_HOURS)"

definition calculate_ttl :: "duration_arg \<Rightarrow> error + rat" where
  "calculate_ttl duration =
     bind_err (as_timedelta duration)
       (\<lambda>d. Inr (ttl_of_hours (total_seconds d / 3600)))"

text \<open>
  The table of the specification, written on the window length itself:
  at most 2 hours, 6 hours, 24 hours, 3 days, 7 days, or longer.
\<close>

definition ttlFor_table :: "timedelta \<Rightarrow> rat" where
  "ttlFor_table d =
     (if total_us d \<le> 2 * us_per_hour then 1 / 2
      else if total_us d \<le> 6 * us_per_hour then 1
      else if total_us d \<le> 24 * us_per_hour then 2
      else if total_us d \<le> 3 * us_per_day then 6
      else if total_us d \<le> 7 * us_per_day then 12
      else 24)"


section \<open>Strings\<close>

text \<open>
  Strings are lists of 8-bit characters, read as the code points 0 to 255. On these,
  \<open>str.isspace\<close> (also the class \<open>\\s\<close> of a regular expression and what \<open>str.strip\<close>
  removes) holds of twelve characters, a decimal digit is one of \<open>0\<close> to \<open>9\<close>, and
  \<open>str.lower\<close> moves the capital letters of ASCII and Latin-1 up by 32.
\<close>

definition isspace :: "char \<Rightarrow> bool" where
  "isspace c = (of_char c \<in> {9, 10, 11, 12, 13, 28, 29, 30, 31, 32, 133, 160 :: nat})"

definition isdigit :: "char \<Rightarrow> bool" where
  "isdigit c = (CHR ''0'' \<le> c \<and> c \<le> CHR ''9'')"

definition lower_char :: "char \<Rightarrow> char" where
  "lower_char c =
     (let n = of_char c :: nat
      in if (65 \<le> n \<and> n \<le> 90) \<or> (192 \<le> n \<and> n \<le> 222 \<and> n \<noteq> 215)
         then char_of (n + 32) else c)"

definition lower :: "string \<Rightarrow> string" where "lower s = map lower_char s"

definition strip :: "string \<Rightarrow> string" where
  "strip s = rev (dropWhile isspace (rev (dropWhile isspace s)))"

section \<open>normalize.py: the hard date filter\<close>

record 'a item =
  date :: "string option"
  payload :: 'a

definition normalize_date_for_comparison :: "string \<Rightarrow> string" where
  "normalize_date_for_comparison date_str =
     (if date_str = [] then []
      else if CHR ''T'' \<in> set date_str then takeWhile (\<lambda>c. c \<noteq> CHR ''T'') date_str
      else date_str)"

fun filter_items ::
  "string \<Rightarrow> string \<Rightarrow> bool \<Rightarrow> ('a, 'b) item_scheme list \<Rightarrow> ('a, 'b) item_scheme list \<Rightarrow> ('a, 'b) item_scheme list"
where
  "filter_items from_n to_n require_date [] result = result"
| "filter_items from_n to_n require_date (it # items) result =
     (case date it of
        None \<Rightarrow>
          (if \<not> require_date then filter_items from_n to_n require_date items (result @ [it])
           else filter_items from_n to_n require_date items result)
      | Some d \<Rightarrow>
          (if normalize_date_for_comparison d < from_n
           then filter_items from_n to_n require_date items result
           else if normalize_date_for_comparison d > to_n
           then filter_items from_n to_n require_date items result
           else filter_items from_n to_n require_date items (result @ [it])))"

definition filter_by_date_range ::
  "('a, 'b) item_scheme list \<Rightarrow> string \<Rightarrow> string \<Rightarrow> bool \<Rightarrow> ('a, 'b) item_scheme list"
where
  "filter_by_date_range items from_date to_date require_date =
     filter_items (normalize_date_for_comparison from_date)
       (normalize_date_for_comparison to_date) require_date items []"

text \<open>The test the loop applies to one item, given the normalised boundaries.\<close>

definition kept :: "string \<Rightarrow> string \<Rightarrow> bool \<Rightarrow> ('a, 'b) item_scheme \<Rightarrow> bool" where
  "kept from_n to_n require_date it =
     (case date it of
        None \<Rightarrow> \<not> require_date
      | Some d \<Rightarrow> \<not> normalize_date_for_comparison d < from_n
                  \<and> \<not> normalize_date_for_comparison d > to_n)"

section \<open>dates.py: parsing a time range\<close>


definition digit_val :: "char \<Rightarrow> int" where
  "digit_val c = int (of_char c) - 48"

definition int_of_digits :: "string \<Rightarrow> int" where
  "int_of_digits ds = foldl (\<lambda>acc c. 10 * acc + digit_val c) 0 ds"








section \<open>The calendar of Python's datetime module\<close>

text \<open>
  \<open>date\<close> and \<open>datetime\<close> are classes of the standard library; \<open>datetime\<close> extends
  \<open>date\<close> with the time of day. The helpers below are those of the module
  (\<open>_is_leap\<close>, \<open>_days_before_year\<close>, \<open>_days_in_month\<close>, \<open>_days_before_month\<close>,
  \<open>_ymd2ord\<close>, \<open>_ord2ymd\<close>) on the proleptic Gregorian calendar, where day 1 is the
  first of January of year 1. Every datetime of the program is in UTC.
\<close>

record pydate =
  year :: int
  month :: int
  day :: int

record datetime = pydate +
  hour :: int
  minute :: int
  second :: int
  microsecond :: int

definition MAXORDINAL :: int where "MAXORDINAL = 3652059"

definition is_leap :: "int \<Rightarrow> bool" where
  "is_leap y = (y mod 4 = 0 \<and> (if y mod 100 = 0 then y mod 400 = 0 else True))"

definition days_before_year :: "int \<Rightarrow> int" where
  "days_before_year y =
     (y - 1) * 365 + (y - 1) div 4 - (y - 1) div 100 + (y - 1) div 400"

definition DAYS_IN_MONTH :: "int list" where
  "DAYS_IN_MONTH = [- 1, 31, 28, 31, 30, 31, 30, 31, 31, 30, 31, 30, 31]"

definition DAYS_BEFORE_MONTH :: "int list" where
  "DAYS_BEFORE_MONTH = [- 1, 0, 31, 59, 90, 120, 151, 181, 212, 243, 273, 304, 334]"

definition days_in_month :: "int \<Rightarrow> int \<Rightarrow> int" where
  "days_in_month y m =
     (if m = 2 \<and> is_leap y then 29 else DAYS_IN_MONTH ! nat m)"

definition days_before_month :: "int \<Rightarrow> int \<Rightarrow> int" where
  "days_before_month y m =
     DAYS_BEFORE_MONTH ! nat m + (if m > 2 \<and> is_leap y then 1 else 0)"

definition ymd2ord :: "int \<Rightarrow> int \<Rightarrow> int \<Rightarrow> int" where
  "ymd2ord y m d = days_before_year y + days_before_month y m + d"

definition ord2ymd :: "int \<Rightarrow> int \<times> int \<times> int" where
  "ord2ymd n0 =
     (let n = n0 - 1;
          n400 = n div 146097; n = n mod 146097;
          n100 = n div 36524; n = n mod 36524;
          n4 = n div 1461; n = n mod 1461;
          n1 = n div 365; n = n mod 365;
          y = n400 * 400 + 1 + n100 * 100 + n4 * 4 + n1
      in if n1 = 4 \<or> n100 = 4 then (y - 1, 12, 31)
         else
           (let leapyear = (n1 = 3 \<and> (n4 \<noteq> 24 \<or> n100 = 3));
                m = (n + 50) div 32;
                preceding = DAYS_BEFORE_MONTH ! nat m + (if m > 2 \<and> leapyear then 1 else 0)
            in if preceding > n
               then (y, m - 1,
                     n - (preceding - (DAYS_IN_MONTH ! nat (m - 1)
                                        + (if m - 1 = 2 \<and> leapyear then 1 else 0))) + 1)
               else (y, m, n - preceding + 1)))"

text \<open>The constructors check their arguments and raise \<open>ValueError\<close> otherwise.\<close>

definition valid_date :: "int \<Rightarrow> int \<Rightarrow> int \<Rightarrow> bool" where
  "valid_date y m d =
     (1 \<le> y \<and> y \<le> 9999 \<and> 1 \<le> m \<and> m \<le> 12 \<and> 1 \<le> d \<and> d \<le> days_in_month y m)"

definition valid_time :: "int \<Rightarrow> int \<Rightarrow> int \<Rightarrow> int \<Rightarrow> bool" where
  "valid_time h mi s us =
     (0 \<le> h \<and> h \<le> 23 \<and> 0 \<le> mi \<and> mi \<le> 59 \<and> 0 \<le> s \<and> s \<le> 59
      \<and> 0 \<le> us \<and> us \<le> 999999)"

definition valid_datetime :: "datetime \<Rightarrow> bool" where
  "valid_datetime dt =
     (valid_date (year dt) (month dt) (day dt)
      \<and> valid_time (hour dt) (minute dt) (second dt) (microsecond dt))"

definition toordinal :: "('a pydate_scheme) \<Rightarrow> int" where
  "toordinal d = ymd2ord (year d) (month d) (day d)"

definition the_date :: "datetime \<Rightarrow> pydate" where
  "the_date dt = \<lparr>year = year dt, month = month dt, day = day dt\<rparr>"

text \<open>Dates compare as the triples of year, month and day.\<close>

definition date_less :: "pydate \<Rightarrow> pydate \<Rightarrow> bool" where
  "date_less a b =
     (year a < year b
      \<or> (year a = year b \<and> (month a < month b \<or> (month a = month b \<and> day a < day b))))"

definition date_le :: "pydate \<Rightarrow> pydate \<Rightarrow> bool" where
  "date_le a b = (date_less a b \<or> a = b)"

text \<open>
  A datetime as a count of microseconds since the start of day 0, and back. The
  difference of two datetimes is the timedelta between these counts; a timedelta is
  subtracted by going through the counts, and the result must fall on a day between 1
  and \<open>MAXORDINAL\<close>, else \<open>OverflowError\<close>.
\<close>

definition datetime_us :: "datetime \<Rightarrow> int" where
  "datetime_us dt =
     ((toordinal dt * 86400 + hour dt * 3600 + minute dt * 60 + second dt) * 1000000
      + microsecond dt)"

definition datetime_of_us :: "int \<Rightarrow> datetime" where
  "datetime_of_us n =
     (let days = n div us_per_day; r = n mod us_per_day;
          secs = r div 1000000;
          ymd = ord2ymd days
      in \<lparr>year = fst ymd, month = fst (snd ymd), day = snd (snd ymd),
          hour = secs div 3600, minute = (secs mod 3600) div 60, second = secs mod 60,
          microsecond = r mod 1000000\<rparr>)"

definition datetime_diff :: "datetime \<Rightarrow> datetime \<Rightarrow> timedelta" where
  "datetime_diff a b = Timedelta (datetime_us a - datetime_us b)"

definition datetime_sub :: "datetime \<Rightarrow> timedelta \<Rightarrow> error + datetime" where
  "datetime_sub dt d =
     (let n = datetime_us dt - total_us d
      in if 0 < n div us_per_day \<and> n div us_per_day \<le> MAXORDINAL
         then Inr (datetime_of_us n) else Inl OverflowError)"

text \<open>Decimal output with leading zeros, as \<open>%04d\<close>, \<open>%02d\<close> and \<open>%06d\<close> print it.\<close>

fun string_of_nat :: "nat \<Rightarrow> string" where
  "string_of_nat n =
     (if n < 10 then [char_of (48 + n)]
      else string_of_nat (n div 10) @ [char_of (48 + n mod 10)])"

definition zero_padded :: "nat \<Rightarrow> int \<Rightarrow> string" where
  "zero_padded w n =
     (let s = string_of_nat (nat n) in replicate (w - length s) CHR ''0'' @ s)"

definition date_isoformat :: "('a pydate_scheme) \<Rightarrow> string" where
  "date_isoformat d =
     zero_padded 4 (year d) @ ''-'' @ zero_padded 2 (month d) @ ''-'' @ zero_padded 2 (day d)"

definition isoformat :: "datetime \<Rightarrow> string" where
  "isoformat dt =
     date_isoformat dt @ ''T'' @ zero_padded 2 (hour dt) @ '':'' @ zero_padded 2 (minute dt)
       @ '':'' @ zero_padded 2 (second dt)
       @ (if microsecond dt \<noteq> 0 then ''.'' @ zero_padded 6 (microsecond dt) else [])
       @ ''+00:00''"

section \<open>The library's strptime\<close>

text \<open>
  \<open>datetime.strptime\<close> turns the format into a regular expression, one group per
  directive, matches it at the start of the text, and raises \<open>ValueError\<close> when it does
  not match, when text is left over, or when the fields do not make a date. The model
  has the directives the program's formats use, each with the alternatives of its
  group in the library's order: \<open>%Y\<close> four digits; \<open>%m\<close> \<open>1[0-2]|0[1-9]|[1-9]\<close>; \<open>%d\<close>
  \<open>3[0-1]|[1-2]\d|0[1-9]|[1-9]| [1-9]\<close>; \<open>%H\<close> \<open>2[0-3]|[0-1]\d|\d\<close>; \<open>%M\<close> \<open>[0-5]\d|\d\<close>;
  \<open>%S\<close> \<open>6[0-1]|[0-5]\d|\d\<close>; \<open>%f\<close> one to six digits; \<open>%z\<close> a sign, two digits, an
  optional colon, two digits, optionally seconds and a fraction, or the capital letter Z.
  In these formats the character after a group never belongs to a shorter alternative
  of the group, so taking the first alternative that fits is what the backtracking
  matcher finds. Literal characters match without regard to case. The failure of
  \<open>strptime\<close> is the value \<open>None\<close>: both callers catch \<open>ValueError\<close> as a class.
\<close>

datatype directive = Lit char | Dir_Y | Dir_m | Dir_d | Dir_H | Dir_M | Dir_S | Dir_f | Dir_z

definition one_of :: "string \<Rightarrow> char \<Rightarrow> bool" where
  "one_of cs c = (c \<in> set cs)"

fun match_classes :: "(char \<Rightarrow> bool) list \<Rightarrow> string \<Rightarrow> bool" where
  "match_classes [] s = True"
| "match_classes (p # ps) [] = False"
| "match_classes (p # ps) (c # cs) = (p c \<and> match_classes ps cs)"

fun first_alternative :: "(char \<Rightarrow> bool) list list \<Rightarrow> string \<Rightarrow> (string \<times> string) option" where
  "first_alternative [] s = None"
| "first_alternative (a # alts) s =
     (if match_classes a s then Some (take (length a) s, drop (length a) s)
      else first_alternative alts s)"

definition z_fractions :: "(char \<Rightarrow> bool) list list" where
  "z_fractions = [one_of ''.'' # replicate k isdigit. k \<leftarrow> [6, 5, 4, 3, 2, 1]] @ [[]]"

definition z_tails :: "(char \<Rightarrow> bool) list list" where
  "z_tails =
     [c2 @ [one_of ''012345'', isdigit] @ fr. c2 \<leftarrow> [[one_of '':''], []], fr \<leftarrow> z_fractions]
     @ [[]]"

definition z_alternatives :: "(char \<Rightarrow> bool) list list" where
  "z_alternatives =
     [[one_of ''+-'', isdigit, isdigit] @ c1 @ [one_of ''012345'', isdigit] @ tail.
        c1 \<leftarrow> [[one_of '':''], []], tail \<leftarrow> z_tails]
     @ [[one_of ''Z'']]"

fun alternatives :: "directive \<Rightarrow> (char \<Rightarrow> bool) list list" where
  "alternatives (Lit c) = [[\<lambda>x. lower_char x = lower_char c]]"
| "alternatives Dir_Y = [[isdigit, isdigit, isdigit, isdigit]]"
| "alternatives Dir_m = [[one_of ''1'', one_of ''012''], [one_of ''0'', one_of ''123456789''],
                         [one_of ''123456789'']]"
| "alternatives Dir_d = [[one_of ''3'', one_of ''01''], [one_of ''12'', isdigit],
                         [one_of ''0'', one_of ''123456789''], [one_of ''123456789''],
                         [one_of '' '', one_of ''123456789'']]"
| "alternatives Dir_H = [[one_of ''2'', one_of ''0123''], [one_of ''01'', isdigit], [isdigit]]"
| "alternatives Dir_M = [[one_of ''012345'', isdigit], [isdigit]]"
| "alternatives Dir_S = [[one_of ''6'', one_of ''01''], [one_of ''012345'', isdigit], [isdigit]]"
| "alternatives Dir_f = [replicate k isdigit. k \<leftarrow> [6, 5, 4, 3, 2, 1]]"
| "alternatives Dir_z = z_alternatives"

fun match_format ::
  "directive list \<Rightarrow> string \<Rightarrow> (directive \<times> string) list
     \<Rightarrow> ((directive \<times> string) list \<times> string) option"
where
  "match_format [] s found = Some (found, s)"
| "match_format (d # ds) s found =
     (case first_alternative (alternatives d) s of
        None \<Rightarrow> None
      | Some (m, rest) \<Rightarrow> match_format ds rest (found @ [(d, m)]))"

text \<open>
  The value of a group: \<open>int()\<close> of its text, which for \<open>%d\<close> may start with a space;
  a missing group keeps the default; the fraction is padded to six digits.
\<close>

definition group_int :: "(directive \<times> string) list \<Rightarrow> directive \<Rightarrow> int \<Rightarrow> int" where
  "group_int found d dflt =
     (case map_of found d of
        None \<Rightarrow> dflt
      | Some m \<Rightarrow> int_of_digits (dropWhile (\<lambda>c. c = CHR '' '') m))"

definition group_fraction :: "(directive \<times> string) list \<Rightarrow> int" where
  "group_fraction found =
     (case map_of found Dir_f of
        None \<Rightarrow> 0
      | Some m \<Rightarrow> int_of_digits (m @ replicate (6 - length m) CHR ''0''))"

text \<open>
  The offset of a \<open>%z\<close> group, in microseconds, when the library accepts it: the colons
  must be used either before both the minutes and the seconds or before neither, and
  the offset must be strictly less than 24 hours; \<open>None\<close> is its \<open>ValueError\<close>. The
  slices are those of the library's code.
\<close>

definition slice :: "nat \<Rightarrow> nat \<Rightarrow> string \<Rightarrow> string" where
  "slice i j s = take (j - i) (drop i s)"

definition all_digits :: "string \<Rightarrow> bool" where
  "all_digits s = (s \<noteq> [] \<and> list_all isdigit s)"

definition z_offset :: "string \<Rightarrow> int option" where
  "z_offset z0 =
     (if z0 = ''Z'' then Some 0
      else
        (let colon = (slice 3 4 z0 = '':'');
             z1 = (if colon then take 3 z0 @ drop 4 z0 else z0);
             bad = (colon \<and> length z1 > 5 \<and> slice 5 6 z1 \<noteq> '':'');
             z = (if colon \<and> length z1 > 5 then take 5 z1 @ drop 6 z1 else z1);
             ss = slice 5 7 z;
             rem = drop 8 z
         in if bad \<or> \<not> all_digits (slice 1 3 z) \<or> \<not> all_digits (slice 3 5 z)
               \<or> (ss \<noteq> [] \<and> \<not> all_digits ss)
               \<or> \<not> all_digits (rem @ replicate (6 - length rem) CHR ''0'')
            then None
            else
              (let gmtoff = int_of_digits (slice 1 3 z) * 3600 + int_of_digits (slice 3 5 z) * 60
                              + (if ss = [] then 0 else int_of_digits ss);
                   fraction = int_of_digits (rem @ replicate (6 - length rem) CHR ''0'');
                   off = gmtoff * 1000000 + fraction
               in if off < us_per_day
                  then Some (if take 1 z = ''-'' then - off else off)
                  else None)))"

definition strptime :: "string \<Rightarrow> directive list \<Rightarrow> datetime option" where
  "strptime data_string fmt =
     (case match_format fmt data_string [] of
        None \<Rightarrow> None
      | Some (found, rest) \<Rightarrow>
          if rest \<noteq> [] then None
          else
            (let y = group_int found Dir_Y 1900; m = group_int found Dir_m 1;
                 d = group_int found Dir_d 1; h = group_int found Dir_H 0;
                 mi = group_int found Dir_M 0; s = group_int found Dir_S 0;
                 us = group_fraction found;
                 z_ok = (case map_of found Dir_z of
                           None \<Rightarrow> True
                         | Some z \<Rightarrow> z_offset z \<noteq> None)
             in if z_ok \<and> valid_date y m d \<and> valid_time h mi s us
                then Some \<lparr>year = y, month = m, day = d, hour = h, minute = mi, second = s,
                           microsecond = us\<rparr>
                else None))"

text \<open>The formats of the program.\<close>

definition FMT_DATE :: "directive list" where
  "FMT_DATE = [Dir_Y, Lit CHR ''-'', Dir_m, Lit CHR ''-'', Dir_d]"

definition FMT_DATETIME :: "directive list" where
  "FMT_DATETIME = FMT_DATE @ [Lit CHR ''T'', Dir_H, Lit CHR '':'', Dir_M, Lit CHR '':'', Dir_S]"

definition formats :: "directive list list" where
  "formats =
     [FMT_DATE,
      FMT_DATETIME,
      FMT_DATETIME @ [Lit CHR ''Z''],
      FMT_DATETIME @ [Dir_z],
      FMT_DATETIME @ [Lit CHR ''.'', Dir_f, Dir_z]]"

section \<open>The library's float() and fromtimestamp\<close>

text \<open>
  \<open>float(text)\<close> accepts, between optional white space: an optional sign followed by
  \<open>inf\<close>, \<open>infinity\<close> or \<open>nan\<close> in any case, or a decimal number with an optional
  exponent, where single underscores may stand between digits. A finite result is kept
  as the exact rational the text denotes (the rounding to a double is not modelled); a
  magnitude beyond the largest double is an infinity. \<open>None\<close> is its \<open>ValueError\<close>.
\<close>

datatype pyfloat = NaN | PosInf | NegInf | Finite rat

fun underscores_ok :: "char \<Rightarrow> string \<Rightarrow> bool" where
  "underscores_ok prev [] = (prev \<noteq> CHR ''_'')"
| "underscores_ok prev (c # cs) =
     ((if c = CHR ''_'' then isdigit prev
       else (if prev = CHR ''_'' then isdigit c else True))
      \<and> underscores_ok c cs)"

definition split_sign :: "string \<Rightarrow> bool \<times> string" where
  "split_sign s =
     (case s of
        [] \<Rightarrow> (False, [])
      | c # cs \<Rightarrow> if c = CHR ''-'' then (True, cs) else if c = CHR ''+'' then (False, cs)
                  else (False, s))"

definition pow10 :: "int \<Rightarrow> rat" where
  "pow10 e = (if 0 \<le> e then 10 ^ nat e else 1 / 10 ^ nat (- e))"

definition parse_decimal :: "string \<Rightarrow> rat option" where
  "parse_decimal s =
     (let ip = takeWhile isdigit s; r1 = dropWhile isdigit s;
          dot = (take 1 r1 = ''.'');
          fp = (if dot then takeWhile isdigit (drop 1 r1) else []);
          r2 = (if dot then dropWhile isdigit (drop 1 r1) else r1);
          mant = of_int (int_of_digits (ip @ fp)) * pow10 (- int (length fp))
      in if ip = [] \<and> fp = [] then None
         else if r2 = [] then Some mant
         else if take 1 r2 = ''e'' \<or> take 1 r2 = ''E''
         then (let (neg, ds) = split_sign (drop 1 r2)
               in if all_digits ds
                  then Some (mant * pow10 (if neg then - int_of_digits ds else int_of_digits ds))
                  else None)
         else None)"

definition DBL_OVERFLOW :: rat where
  "DBL_OVERFLOW = 2 ^ 1024 - 2 ^ 970"

definition py_float :: "string \<Rightarrow> pyfloat option" where
  "py_float text =
     (let s = strip text
      in if CHR ''_'' \<in> set s \<and> \<not> underscores_ok (CHR 0x00) s then None
         else
           (let (neg, body) = split_sign (filter (\<lambda>c. c \<noteq> CHR ''_'') s)
            in if lower body = ''inf'' \<or> lower body = ''infinity''
               then Some (if neg then NegInf else PosInf)
               else if lower body = ''nan'' then Some NaN
               else (case parse_decimal body of
                       None \<Rightarrow> None
                     | Some v \<Rightarrow>
                         if DBL_OVERFLOW \<le> v then Some (if neg then NegInf else PosInf)
                         else Some (Finite (if neg then - v else v)))))"

text \<open>
  \<open>datetime.fromtimestamp(ts, tz=timezone.utc)\<close>, as CPython computes it: a NaN raises
  \<open>ValueError\<close>; the value is split into whole seconds and a fraction, the fraction is
  rounded to microseconds, half to even; whole seconds outside the 64-bit \<open>time_t\<close>
  raise \<open>OverflowError\<close>; seconds for which the C library's \<open>gmtime\<close> cannot hold the year
  in an \<open>int\<close> raise \<open>OSError\<close> (the bounds are those of a C library with 64-bit
  \<open>time_t\<close> and 32-bit \<open>int\<close>); a year outside 1 to 9999 raises \<open>ValueError\<close>.
\<close>

definition round_half_even :: "rat \<Rightarrow> int" where
  "round_half_even x =
     (let f = \<lfloor>x\<rfloor>; r = x - of_int f
      in if r < 1 / 2 then f else if 1 / 2 < r then f + 1
         else if even f then f else f + 1)"

definition trunc :: "rat \<Rightarrow> int" where
  "trunc x = (if 0 \<le> x then \<lfloor>x\<rfloor> else \<lceil>x\<rceil>)"

definition EPOCH_ORDINAL :: int where "EPOCH_ORDINAL = 719163"
definition GMTIME_MIN :: int where "GMTIME_MIN = - 67768040609740800"
definition GMTIME_MAX :: int where "GMTIME_MAX = 67768036191676799"

definition fromtimestamp :: "pyfloat \<Rightarrow> error + datetime" where
  "fromtimestamp ts =
     (case ts of
        NaN \<Rightarrow> Inl (ValueError ''Invalid value NaN (not a number)'')
      | PosInf \<Rightarrow> Inl OverflowError
      | NegInf \<Rightarrow> Inl OverflowError
      | Finite v \<Rightarrow>
          (let ip = trunc v;
               us0 = round_half_even ((v - of_int ip) * 1000000);
               sec = (if 1000000 \<le> us0 then ip + 1 else if us0 < 0 then ip - 1 else ip);
               us = (if 1000000 \<le> us0 then us0 - 1000000
                     else if us0 < 0 then us0 + 1000000 else us0);
               ordinal = sec div 86400 + EPOCH_ORDINAL
           in if sec < - (2 ^ 63) \<or> 2 ^ 63 \<le> sec then Inl OverflowError
              else if sec < GMTIME_MIN \<or> GMTIME_MAX < sec then Inl OSError
              else if ordinal < 1 \<or> MAXORDINAL < ordinal
              then Inl (ValueError ''year is out of range'')
              else Inr (datetime_of_us ((ordinal * 86400 + sec mod 86400) * 1000000 + us))))"

section \<open>dates.py\<close>

text \<open>
  \<open>parse_date\<close>: nothing for a missing or empty text; else the text as a Unix timestamp,
  where only \<open>ValueError\<close> and \<open>TypeError\<close> of the conversion are caught; else the first
  of the formats that \<open>strptime\<close> accepts, the fields then read as UTC whatever offset
  the text gave (\<open>replace(tzinfo=timezone.utc)\<close>); else nothing.
\<close>

fun first_format :: "string \<Rightarrow> directive list list \<Rightarrow> datetime option" where
  "first_format date_str [] = None"
| "first_format date_str (fmt # fmts) =
     (case strptime date_str fmt of
        Some dt \<Rightarrow> Some dt
      | None \<Rightarrow> first_format date_str fmts)"

definition parse_date :: "string option \<Rightarrow> error + datetime option" where
  "parse_date date_str =
     (case date_str of
        None \<Rightarrow> Inr None
      | Some s \<Rightarrow>
          if s = [] then Inr None
          else
            (case py_float s of
               None \<Rightarrow> Inr (first_format s formats)
             | Some ts \<Rightarrow>
                 (case fromtimestamp ts of
                    Inr dt \<Rightarrow> Inr (Some dt)
                  | Inl (ValueError m) \<Rightarrow> Inr (first_format s formats)
                  | Inl TypeError \<Rightarrow> Inr (first_format s formats)
                  | Inl e \<Rightarrow> Inl e)))"

text \<open>
  \<open>get_date_range\<close>, with the clock reading \<open>now\<close> as an argument: full timestamps for a
  window shorter than a day, calendar dates otherwise.
\<close>

definition get_date_range :: "datetime \<Rightarrow> duration_arg \<Rightarrow> error + string \<times> string" where
  "get_date_range now duration0 =
     bind_err (as_timedelta duration0) (\<lambda>duration.
       bind_err (datetime_sub now duration) (\<lambda>from_dt.
         if total_us duration < us_per_day
         then Inr (isoformat from_dt, isoformat now)
         else Inr (date_isoformat from_dt, date_isoformat now)))"

text \<open>
  \<open>get_date_confidence\<close>: the three texts are parsed with the date-only format, in the
  order date, start, end, inside one handler that turns a \<open>ValueError\<close> into \<open>low\<close>.
\<close>

definition get_date_confidence :: "string option \<Rightarrow> string \<Rightarrow> string \<Rightarrow> string" where
  "get_date_confidence date_str from_date to_date =
     (case date_str of
        None \<Rightarrow> ''low''
      | Some s \<Rightarrow>
          if s = [] then ''low''
          else
            (case strptime s FMT_DATE of
               None \<Rightarrow> ''low''
             | Some dt \<Rightarrow>
                 (case strptime from_date FMT_DATE of
                    None \<Rightarrow> ''low''
                  | Some start \<Rightarrow>
                      (case strptime to_date FMT_DATE of
                         None \<Rightarrow> ''low''
                       | Some end_dt \<Rightarrow>
                           if date_le (the_date start) (the_date dt)
                              \<and> date_le (the_date dt) (the_date end_dt)
                           then ''high''
                           else if date_less (the_date dt) (the_date start) then ''low''
                           else ''low''))))"

text \<open>
  \<open>recency_score\<close>, with the clock reading \<open>now\<close> as an argument. The quotient of the
  two \<open>total_seconds()\<close> and the product with 100 are floats in Python and exact
  rationals here; \<open>int()\<close> truncates towards zero.
\<close>

definition recency_score :: "datetime \<Rightarrow> string option \<Rightarrow> duration_arg \<Rightarrow> error + int" where
  "recency_score now date_str max_duration0 =
     (case date_str of
        None \<Rightarrow> Inr 0
      | Some s \<Rightarrow>
          if s = [] then Inr 0
          else
            bind_err (parse_date (Some s)) (\<lambda>parsed.
              case parsed of
                None \<Rightarrow> Inr 0
              | Some p \<Rightarrow>
                  (let age = datetime_diff now p
                   in bind_err (as_timedelta max_duration0) (\<lambda>max_duration.
                        if total_seconds age < 0 then Inr 100
                        else if total_us max_duration \<le> total_us age then Inr 0
                        else
                          (let ratio = total_seconds age / total_seconds max_duration
                           in Inr (trunc (100 * (1 - ratio))))))))"

text \<open>
  The calls \<open>f(timedelta(days=n))\<close> of the three functions that also accept the day
  count itself: Python builds the timedelta first, then calls.
\<close>

definition calculate_ttl_timedelta_days :: "int \<Rightarrow> error + rat" where
  "calculate_ttl_timedelta_days n =
     bind_err (timedelta_days n) (\<lambda>d. calculate_ttl (Delta d))"

definition get_date_range_timedelta_days :: "datetime \<Rightarrow> int \<Rightarrow> error + string \<times> string" where
  "get_date_range_timedelta_days now n =
     bind_err (timedelta_days n) (\<lambda>d. get_date_range now (Delta d))"

definition recency_score_timedelta_days :: "datetime \<Rightarrow> string option \<Rightarrow> int \<Rightarrow> error + int" where
  "recency_score_timedelta_days now date_str n =
     bind_err (timedelta_days n) (\<lambda>d. recency_score now date_str (Delta d))"

text \<open>A clock reading for the examples: 2026-11-04T17:06:05 UTC.\<close>

definition example_now :: datetime where
  "example_now = \<lparr>year = 2026, month = 11, day = 4, hour = 17, minute = 6, second = 5,
                   microsecond = 0\<rparr>"

section \<open>cache.py: the files\<close>

text \<open>
  A JSON value as \<open>json.load\<close> returns it; \<open>JNull\<close> is Python's \<open>None\<close>, an object is a
  dict, with its keys in insertion order.
\<close>

datatype json =
    JNull | JBool bool | JInt int | JFloat rat | JStr string
  | JList "json list" | JObj "(string \<times> json) list"

text \<open>
  The cache directory and the files in it, by file name. A file has a modification
  time and a content: the JSON value its text denotes, text that \<open>json.load\<close> rejects
  with \<open>JSONDecodeError\<close>, or a content that cannot be opened or read (\<open>OSError\<close>). An
  entry can also be one that \<open>exists()\<close> reports but \<open>stat()\<close> fails on. The directory is
  there, or can be created, or cannot (\<open>mkdir\<close> raises \<open>OSError\<close>); \<open>read_only\<close> names the
  files that cannot be opened for writing.
\<close>

datatype content = Json json | Malformed | Unreadable

datatype entry = Absent | NoStat | File datetime content

datatype dir_state = DirPresent | DirCreatable | DirBlocked

record fs =
  cache_dir :: dir_state
  entries :: "string \<Rightarrow> entry"
  read_only :: "string \<Rightarrow> bool"

definition get_cache_path :: "string \<Rightarrow> string" where
  "get_cache_path cache_key = cache_key @ ''.json''"


definition ensure_cache_dir :: "fs \<Rightarrow> error + fs" where
  "ensure_cache_dir s =
     (case cache_dir s of
        DirPresent \<Rightarrow> Inr s
      | DirCreatable \<Rightarrow> Inr (s\<lparr>cache_dir := DirPresent\<rparr>)
      | DirBlocked \<Rightarrow> Inl OSError)"

text \<open>
  \<open>open(path, 'w')\<close> and \<open>json.dump\<close>: fails when the directory is missing or the file
  cannot be written; else the file holds the value, with the time of writing.
\<close>

definition write_json :: "fs \<Rightarrow> datetime \<Rightarrow> string \<Rightarrow> json \<Rightarrow> error + fs" where
  "write_json s now path data =
     (if cache_dir s \<noteq> DirPresent \<or> read_only s path then Inl OSError
      else Inr (s\<lparr>entries := (entries s)(path := File now (Json data))\<rparr>))"






definition save_cache :: "fs \<Rightarrow> datetime \<Rightarrow> string \<Rightarrow> json \<Rightarrow> error + fs" where
  "save_cache s now cache_key data =
     bind_err (ensure_cache_dir s) (\<lambda>s1.
       case write_json s1 now (get_cache_path cache_key) data of
         Inr s2 \<Rightarrow> Inr s2
       | Inl OSError \<Rightarrow> Inr s1
       | Inl e \<Rightarrow> Inl e)"







section \<open>normalize.py: URL validation\<close>

text \<open>
  \<open>urllib.parse.urlparse\<close>, as far as the scheme and the network location go: leading
  control characters and spaces are dropped, tabs and line breaks removed; the text
  before the first colon is the scheme when it starts with an ASCII letter and consists
  of scheme characters; a network location follows only after \<open>//\<close> and ends before the
  first of \<open>/\<close>, \<open>?\<close> and \<open>#\<close>. A location with one square bracket but not the other raises
  \<open>ValueError\<close>, as does one whose bracketed part the library's address check rejects;
  that check (of the \<open>ipaddress\<close> module) is the parameter \<open>bracket_ok\<close>. The check of the
  location under Unicode normalisation never fires on code points below 256.
\<close>

definition scheme_chars :: string where
  "scheme_chars =
     ''abcdefghijklmnopqrstuvwxyzABCDEFGHIJKLMNOPQRSTUVWXYZ0123456789+-.''"

definition ascii_letters :: string where
  "ascii_letters = ''abcdefghijklmnopqrstuvwxyzABCDEFGHIJKLMNOPQRSTUVWXYZ''"

definition c0_control_or_space :: "char \<Rightarrow> bool" where
  "c0_control_or_space c = ((of_char c :: nat) \<le> 32)"

definition unsafe_byte :: "char \<Rightarrow> bool" where
  "unsafe_byte c = (c = CHR 0x09 \<or> c = CHR 0x0D \<or> c = CHR 0x0A)"

definition clean_url :: "string \<Rightarrow> string" where
  "clean_url url = filter (\<lambda>c. \<not> unsafe_byte c) (dropWhile c0_control_or_space url)"

definition split_scheme :: "string \<Rightarrow> string \<times> string" where
  "split_scheme url =
     (let pre = takeWhile (\<lambda>c. c \<noteq> CHR '':'') url
      in if CHR '':'' \<in> set url \<and> pre \<noteq> [] \<and> hd url \<in> set ascii_letters
            \<and> list_all (\<lambda>c. c \<in> set scheme_chars) pre
         then (lower pre, drop (length pre + 1) url)
         else ([], url))"

definition splitnetloc :: "string \<Rightarrow> string" where
  "splitnetloc url = takeWhile (\<lambda>c. c \<notin> set ''/?#'') (drop 2 url)"

definition bracketed_host :: "string \<Rightarrow> string" where
  "bracketed_host netloc_str =
     takeWhile (\<lambda>c. c \<noteq> CHR '']'') (drop 1 (dropWhile (\<lambda>c. c \<noteq> CHR ''['') netloc_str))"

definition brackets_accepted :: "(string \<Rightarrow> bool) \<Rightarrow> string \<Rightarrow> bool" where
  "brackets_accepted bracket_ok n =
     (if CHR ''['' \<in> set n
      then CHR '']'' \<in> set n \<and> bracket_ok (bracketed_host n)
      else CHR '']'' \<notin> set n)"

record parse_result =
  scheme :: string
  netloc :: string

definition urlparse :: "(string \<Rightarrow> bool) \<Rightarrow> string \<Rightarrow> error + parse_result" where
  "urlparse bracket_ok url0 =
     (let (sch, url) = split_scheme (clean_url url0)
      in if take 2 url = ''//''
         then
           (let n = splitnetloc url
            in if brackets_accepted bracket_ok n then Inr \<lparr>scheme = sch, netloc = n\<rparr>
               else Inl (ValueError ''Invalid IPv6 URL''))
         else Inr \<lparr>scheme = sch, netloc = []\<rparr>)"

definition is_valid_url :: "(string \<Rightarrow> bool) \<Rightarrow> string \<Rightarrow> bool" where
  "is_valid_url bracket_ok url =
     (if url = [] then False
      else case urlparse bracket_ok url of
             Inl e \<Rightarrow> False
           | Inr parsed \<Rightarrow> scheme parsed \<in> set [''http'', ''https''] \<and> netloc parsed \<noteq> [])"

definition is_valid_reddit_url :: "(string \<Rightarrow> bool) \<Rightarrow> string \<Rightarrow> bool" where
  "is_valid_reddit_url bracket_ok url =
     (if \<not> is_valid_url bracket_ok url then False
      else case urlparse bracket_ok url of
             Inl e \<Rightarrow> False
           | Inr parsed \<Rightarrow>
               netloc parsed \<in> set [''reddit.com'', ''www.reddit.com'', ''old.reddit.com''])"

text \<open>
  The host of a network location, as the \<open>hostname\<close> attribute of the parse result
  gives it: what follows the last \<open>@\<close>, then the bracketed part if there is one, else the
  part before the first colon, in lower case up to a percent sign; empty when there is
  none. The program
  never reads it; it is here to say what a URL without a host is.
\<close>

definition after_last_at :: "string \<Rightarrow> string" where
  "after_last_at n = rev (takeWhile (\<lambda>c. c \<noteq> CHR ''@'') (rev n))"

definition hostname :: "string \<Rightarrow> string" where
  "hostname n =
     (let hostinfo = after_last_at n;
          h = (if CHR ''['' \<in> set hostinfo then bracketed_host hostinfo
               else takeWhile (\<lambda>c. c \<noteq> CHR '':'') hostinfo)
      in lower (takeWhile (\<lambda>c. c \<noteq> CHR ''%'') h) @ dropWhile (\<lambda>c. c \<noteq> CHR ''%'') h)"

text \<open>
  The shape of the strings \<open>is_valid_url\<close> accepts, said without the parser: after the
  cleaning, \<open>http\<close> or \<open>https\<close> in any case, \<open>://\<close>, a non-empty location free of \<open>/\<close>,
  \<open>?\<close> and \<open>#\<close> with acceptable brackets, and then the end or one of these three.
\<close>

definition safe_url_shape :: "(string \<Rightarrow> bool) \<Rightarrow> string \<Rightarrow> bool" where
  "safe_url_shape bracket_ok url =
     (\<exists>s n r. clean_url url = s @ ''://'' @ n @ r
        \<and> (lower s = ''http'' \<or> lower s = ''https'')
        \<and> n \<noteq> [] \<and> list_all (\<lambda>c. c \<notin> set ''/?#'') n
        \<and> (r = [] \<or> hd r \<in> set ''/?#'')
        \<and> brackets_accepted bracket_ok n)"

text \<open>An address check for the examples, which have no brackets: it accepts nothing.\<close>

definition no_bracketed_host :: "string \<Rightarrow> bool" where
  "no_bracketed_host h = False"

text \<open>The age of a file at a clock reading, in microseconds.\<close>

definition age_us :: "datetime \<Rightarrow> datetime \<Rightarrow> int" where
  "age_us now mtime = datetime_us now - datetime_us mtime"



lemma hours_le_iff:
  "(of_int u / 1000000 / 3600 \<le> (numeral k :: rat)) = (u \<le> numeral k * us_per_hour)"
proof -
  have "(of_int u / 1000000 / 3600 \<le> (numeral k :: rat)) =
        ((of_int u :: rat) \<le> of_int (numeral k * us_per_hour))"
    by (simp add: us_per_hour_def field_simps)
  then show ?thesis by (simp only: of_int_le_iff)
qed

lemma calculate_ttl_table: "calculate_ttl (Delta d) = Inr (ttlFor_table d)"
  by (simp add: calculate_ttl_def as_timedelta_def bind_err_def ttl_of_hours_def
      ttlFor_table_def total_seconds_def hours_le_iff DEFAULT_TTL_HOURS_def us_per_day_def
      us_per_hour_def)

lemma ttlFor_table_mono:
  "total_us d \<le> total_us d' \<Longrightarrow> ttlFor_table d \<le> ttlFor_table d'"
  by (simp add: ttlFor_table_def us_per_hour_def us_per_day_def)

text \<open>
  C5: for a duration \<open>d\<close>, \<open>calculate_ttl\<close> is the step function of the window length
  (at most 2 hours gives 0.5, at most 6 hours 1, at most 24 hours 2, at most 3 days 6, at
  most 7 days 12, anything longer 24); it never decreases when the window grows; and a
  window of exactly 2 hours, 6 hours, 1 day, 3 days or 7 days falls into the lower bucket.
\<close>

theorem calculate_ttl_step_function:
  "calculate_ttl (Delta d) = Inr (ttlFor_table d)
   \<and> (total_us d \<le> total_us d' \<longrightarrow> ttlFor_table d \<le> ttlFor_table d')
   \<and> calculate_ttl (Delta (Timedelta (2 * us_per_hour))) = Inr (1 / 2)
   \<and> calculate_ttl (Delta (Timedelta (6 * us_per_hour))) = Inr 1
   \<and> calculate_ttl (Delta (Timedelta (1 * us_per_day))) = Inr 2
   \<and> calculate_ttl (Delta (Timedelta (3 * us_per_day))) = Inr 6
   \<and> calculate_ttl (Delta (Timedelta (7 * us_per_day))) = Inr 12"
proof -
  have table: "calculate_ttl (Delta x) = Inr (ttlFor_table x)" for x
    by (rule calculate_ttl_table)
  have mono: "total_us d \<le> total_us d' \<longrightarrow> ttlFor_table d \<le> ttlFor_table d'"
    using ttlFor_table_mono by blast
  have b2: "ttlFor_table (Timedelta (2 * us_per_hour)) = 1 / 2"
    and b6: "ttlFor_table (Timedelta (6 * us_per_hour)) = 1"
    and b24: "ttlFor_table (Timedelta (1 * us_per_day)) = 2"
    and b72: "ttlFor_table (Timedelta (3 * us_per_day)) = 6"
    and b168: "ttlFor_table (Timedelta (7 * us_per_day)) = 12"
    by (simp_all add: ttlFor_table_def us_per_hour_def us_per_day_def)
  show ?thesis
    using mono by (simp only: table b2 b6 b24 b72 b168 simp_thms)
qed

theorem calculate_ttl_step_function_witness:
  "total_us (Timedelta 7200000001) \<le> total_us (Timedelta 259200000000)
   \<and> calculate_ttl (Delta (Timedelta 7200000001)) = Inr 1
   \<and> ttlFor_table (Timedelta 7200000001) \<le> ttlFor_table (Timedelta 259200000000)"
proof -
  have le: "total_us (Timedelta 7200000001) \<le> total_us (Timedelta 259200000000)"
    by simp
  have val: "ttlFor_table (Timedelta 7200000001) = 1"
    by (simp add: ttlFor_table_def us_per_hour_def us_per_day_def)
  show ?thesis
    using le val
      calculate_ttl_step_function [of "Timedelta 7200000001" "Timedelta 259200000000"]
    by simp
qed

lemma filter_items_filter:
  "filter_items f t r items result = result @ filter (kept f t r) items"
  by (induction items arbitrary: result) (auto simp: kept_def split: option.splits)

text \<open>
  C8: \<open>filter_by_date_range\<close> is idempotent: filtering its own output again, with the
  same boundaries and the same \<open>require_date\<close>, returns that output unchanged.
\<close>

theorem filter_by_date_range_idempotent:
  "filter_by_date_range (filter_by_date_range items from_date to_date require_date)
     from_date to_date require_date
   = filter_by_date_range items from_date to_date require_date"
proof -
  let ?f = "normalize_date_for_comparison from_date"
  let ?t = "normalize_date_for_comparison to_date"
  have once: "filter_by_date_range xs from_date to_date require_date
                = filter (kept ?f ?t require_date) xs" for xs :: "('a, 'b) item_scheme list"
    by (simp add: filter_by_date_range_def filter_items_filter)
  have "filter (kept ?f ?t require_date) (filter (kept ?f ?t require_date) items)
          = filter (kept ?f ?t require_date) items"
    by simp
  then show ?thesis by (simp only: once)
qed













section \<open>Properties of dates.py\<close>

text \<open>
  C1: \<open>get_date_confidence\<close> is to compare the date-only parts of the date and of both
  boundaries, also for datetime-formatted boundaries. The code parses all three texts
  with the date-only format and no split at \<open>T\<close>: with the boundaries of its own tests
  (\<open>test_handles_iso_datetime\<close>, \<open>test_handles_mixed_formats\<close>, which expect \<open>high\<close>) it
  answers \<open>low\<close>, and so it does for a datetime-formatted date inside date-only
  boundaries; with all three texts date-only the same date is \<open>high\<close>.
\<close>

theorem get_date_confidence_datetime_boundaries:
  "get_date_confidence (Some ''2026-01-15'')
     ''2026-01-01T00:00:00+00:00'' ''2026-01-31T23:59:59+00:00'' = ''low''
   \<and> get_date_confidence (Some ''2026-01-15'')
     ''2026-01-01T12:00:00Z'' ''2026-01-31T12:00:00Z'' = ''low''
   \<and> get_date_confidence (Some ''2026-01-15T08:30:00Z'') ''2026-01-01'' ''2026-01-31'' = ''low''
   \<and> get_date_confidence (Some ''2026-01-15'') ''2026-01-01'' ''2026-01-31'' = ''high''"
proof -
  have a: "get_date_confidence (Some ''2026-01-15'')
             ''2026-01-01T00:00:00+00:00'' ''2026-01-31T23:59:59+00:00'' = ''low''"
    by code_simp
  have b: "get_date_confidence (Some ''2026-01-15'')
             ''2026-01-01T12:00:00Z'' ''2026-01-31T12:00:00Z'' = ''low''"
    by code_simp
  have c: "get_date_confidence (Some ''2026-01-15T08:30:00Z'') ''2026-01-01'' ''2026-01-31''
             = ''low''"
    by code_simp
  have d: "get_date_confidence (Some ''2026-01-15'') ''2026-01-01'' ''2026-01-31'' = ''high''"
    by code_simp
  show ?thesis using a b c d by simp
qed

lemma parse_date_inf: "parse_date (Some ''inf'') = Inl OverflowError"
  by code_simp

lemma parse_date_ns: "parse_date (Some ''1768435200000000000'') = Inl OSError"
  by code_simp

text \<open>
  C7: \<open>recency_score\<close> is to return an integer between 0 and 100 for every date string,
  0 for one that cannot be parsed. The text \<open>inf\<close> is accepted by \<open>float\<close>, the timestamp
  conversion then raises \<open>OverflowError\<close>, which \<open>parse_date\<close> does not catch: the call
  raises, whatever the clock and the maximal duration.
\<close>

theorem recency_score_inf_raises:
  "recency_score now (Some ''inf'') max_duration = Inl OverflowError"
proof -
  have "bind_err (parse_date (Some ''inf'')) f = Inl OverflowError"
    for f :: "datetime option \<Rightarrow> error + int"
    by (simp add: parse_date_inf bind_err_def)
  then show ?thesis by (simp add: recency_score_def)
qed

text \<open>
  C10, as stated, fails beyond the range of a timedelta: for the day count 1000000000
  and no date, the integer form returns 0, and the timedelta form raises
  \<open>OverflowError\<close> while building its argument.
\<close>

theorem int_days_overload_counterexample:
  "recency_score example_now None (IntDays 1000000000) = Inr 0
   \<and> recency_score_timedelta_days example_now None 1000000000 = Inl OverflowError"
  by code_simp

lemma timedelta_days_in_range:
  "- 999999999 \<le> n \<Longrightarrow> n \<le> 999999999 \<Longrightarrow> timedelta_days n = Inr (Timedelta (n * us_per_day))"
  by (simp add: timedelta_days_def mk_timedelta_def timedelta_min_us_def timedelta_max_us_def
      us_per_day_def)

text \<open>
  C10, amended: the integer form of \<open>calculate_ttl\<close> and of \<open>get_date_range\<close> equals the
  call with \<open>timedelta(days=n)\<close> for every \<open>n\<close> (both raise \<open>OverflowError\<close> alike where the
  timedelta does not exist or the start of the window falls before year 1), and the
  integer form of \<open>recency_score\<close> equals it for every date string and every \<open>n\<close> from 0
  to 999999999, the largest day count of a timedelta.
\<close>

theorem int_days_overload_equivalent:
  "calculate_ttl (IntDays n) = calculate_ttl_timedelta_days n
   \<and> get_date_range now (IntDays n) = get_date_range_timedelta_days now n
   \<and> (0 \<le> n \<and> n \<le> 999999999 \<longrightarrow>
        recency_score now d (IntDays n) = recency_score_timedelta_days now d n)"
proof -
  have ttl: "calculate_ttl (IntDays n) = calculate_ttl_timedelta_days n"
    by (cases "timedelta_days n")
       (simp_all add: calculate_ttl_def calculate_ttl_timedelta_days_def as_timedelta_def
          bind_err_def)
  have rng: "get_date_range now (IntDays n) = get_date_range_timedelta_days now n"
    by (cases "timedelta_days n")
       (simp_all add: get_date_range_def get_date_range_timedelta_days_def as_timedelta_def
          bind_err_def)
  have sc: "recency_score now d (IntDays n) = recency_score_timedelta_days now d n"
    if "0 \<le> n" "n \<le> 999999999"
  proof -
    have td: "timedelta_days n = Inr (Timedelta (n * us_per_day))"
      using that by (simp add: timedelta_days_in_range)
    let ?t = "Timedelta (n * us_per_day)"
    have eq: "as_timedelta (IntDays n) = as_timedelta (Delta ?t)"
      by (simp add: as_timedelta_def td)
    have "recency_score now d (IntDays n) = recency_score now d (Delta ?t)"
      unfolding recency_score_def eq by (rule refl)
    moreover have "recency_score_timedelta_days now d n = recency_score now d (Delta ?t)"
      by (simp add: recency_score_timedelta_days_def td bind_err_def)
    ultimately show ?thesis by simp
  qed
  show ?thesis using ttl rng sc by blast
qed

theorem int_days_overload_equivalent_witness:
  "(0::int) \<le> 30 \<and> (30::int) \<le> 999999999
   \<and> recency_score example_now (Some ''2026-10-20'') (IntDays 30) = Inr 47
   \<and> recency_score_timedelta_days example_now (Some ''2026-10-20'') 30 = Inr 47
   \<and> calculate_ttl (IntDays 30) = Inr 24
   \<and> calculate_ttl_timedelta_days 30 = Inr 24"
proof -
  have a: "recency_score example_now (Some ''2026-10-20'') (IntDays 30) = Inr 47"
    by code_simp
  have b: "calculate_ttl (IntDays 30) = Inr 24" by code_simp
  show ?thesis
    using int_days_overload_equivalent [of 30 example_now "Some ''2026-10-20''"] a b
    by simp
qed

section \<open>Properties of cache.py\<close>

text \<open>
  C3: \<open>save_cache\<close> is never to raise, the failure to create the cache directory
  included. \<open>ensure_cache_dir\<close> is called outside the handler that swallows \<open>OSError\<close>:
  when the directory cannot be created, the error reaches the caller.
\<close>

theorem save_cache_blocked_dir_raises:
  "save_cache (s\<lparr>cache_dir := DirBlocked\<rparr>) now cache_key data = Inl OSError"
  by (simp add: save_cache_def ensure_cache_dir_def bind_err_def)

lemma save_cache_swallows_write_failure:
  "cache_dir s \<noteq> DirBlocked \<Longrightarrow> \<exists>s'. save_cache s now cache_key data = Inr s'"
  by (cases "cache_dir s")
     (auto simp: save_cache_def ensure_cache_dir_def bind_err_def write_json_def)

lemma age_lt_iff:
  "(total_seconds (datetime_diff now mtime) / 3600 < ttl)
     = (of_int (age_us now mtime) < ttl * 3600000000)"
  by (simp add: total_seconds_def datetime_diff_def age_us_def field_simps)













end
